theory Spec2Isabelle
  imports Main "HOL-Library.Word"
begin

section \<open>The file node of the mounted filesystem (weed/filesys/file.go)\<close>

text \<open>
  A shallow embedding of \<^verbatim>\<open>weed/filesys/file.go\<close>. Go's fixed-width integers are
  64-bit and 32-bit words: \<^verbatim>\<open>int64\<close> and \<^verbatim>\<open>uint64\<close> share the type \<open>64 word\<close>, a
  conversion between them keeps the bits, and the signedness lives in the comparison
  (\<open><s\<close> for \<^verbatim>\<open>int64\<close>, \<open><\<close> for \<^verbatim>\<open>uint64\<close>). Pointers that may be nil are options.
  A panic is an error value like any returned error.
\<close>

subsection \<open>Data\<close>

text \<open>
  \<^verbatim>\<open>filer_pb.FileChunk\<close>: the fields file.go reads. \<open>FileKey\<close> is \<^verbatim>\<open>chunk.Fid.FileKey\<close>;
  the \<^verbatim>\<open>Fid\<close> pointer is taken to be set, as it is on every chunk the filer hands out.
\<close>

record FileChunk =
  Offset :: "64 word"
  Size :: "64 word"
  Mtime :: "64 word"
  FileKey :: "64 word"

text \<open>\<^verbatim>\<open>filer_pb.FuseAttributes\<close>; \<open>AttrMtime\<close> is its \<^verbatim>\<open>Mtime\<close> field.\<close>

record FuseAttributes =
  FileSize :: "64 word"
  FileMode :: "32 word"
  Uid :: "32 word"
  Gid :: "32 word"
  Crtime :: "64 word"
  AttrMtime :: "64 word"

text \<open>\<^verbatim>\<open>filer_pb.Entry\<close>; the \<^verbatim>\<open>Attributes\<close> pointer is taken to be set.\<close>

record Entry =
  Chunks :: "FileChunk list"
  Attributes :: FuseAttributes
  HardLinkId :: "8 word list"
  HardLinkCounter :: "32 word"
  Extended :: "(string \<times> 8 word list) list"

datatype error =
    ENOENT
  | EIO
  | Errno nat
  | Panic_index_out_of_range
  | Panic_nil_dereference

text \<open>
  What the node asks of the code around it, in the order it asks: the lookup of the
  entry through \<^verbatim>\<open>wfs.maybeLoadEntry\<close>, the \<^verbatim>\<open>UpdateEntry\<close> request sent to the filer, the
  update of the local meta cache (with \<^verbatim>\<open>filer.FromPbEntry\<close> of the entry given), the
  \<^verbatim>\<open>Close\<close> of a reader, and the two calls of \<^verbatim>\<open>Forget\<close>.
\<close>

datatype call =
    Call_wfs_maybeLoadEntry
  | Call_client_UpdateEntry Entry
  | Call_metaCache_UpdateEntry Entry
  | Call_reader_Close
  | Call_DeleteFsNode
  | Call_ReleaseHandle

text \<open>An \<^verbatim>\<open>io.ReaderAt\<close>; \<open>is_Closer\<close> is the outcome of the type assertion in \<^verbatim>\<open>setReader\<close>.\<close>

datatype Reader = Reader (is_Closer: bool)

text \<open>
  Modelled from the spec: \<^verbatim>\<open>filer.VisibleInterval\<close> is declared in package filer, which
  is not among the sources. The spec gives it a start, an end and the chunk it shows;
  file.go only passes the intervals around.
\<close>

record VisibleInterval =
  start :: "64 word"
  stop :: "64 word"
  source_chunk :: FileChunk

text \<open>
  \<^verbatim>\<open>File\<close>. \<open>calls\<close> is not a field of the struct: it records the calls made so far.
  \<open>isOpen\<close> is a Go \<^verbatim>\<open>int\<close>, only compared with 0 and counted up here.
\<close>

record File =
  entry :: "Entry option"
  entryViewCache :: "VisibleInterval list"
  isOpen :: int
  reader :: "Reader option"
  dirtyMetadata :: bool
  calls :: "call list"

record SetattrRequest =
  Valid_Size :: bool
  Valid_Mode :: bool
  Valid_Uid :: bool
  Valid_Gid :: bool
  Valid_Crtime :: bool
  Valid_Mtime :: bool
  Valid_Handle :: bool
  req_Size :: "64 word"
  req_Mode :: "32 word"
  req_Uid :: "32 word"
  req_Gid :: "32 word"
  req_Crtime :: "64 word"
  req_Mtime :: "64 word"

record SetxattrRequest =
  sx_Name :: string
  sx_Xattr :: "8 word list"
  sx_Position :: "32 word"

record RemovexattrRequest =
  rx_Name :: string

record GetxattrRequest =
  gx_Name :: string
  gx_Size :: "32 word"
  gx_Position :: "32 word"

record ListxattrRequest =
  lx_Size :: "32 word"
  lx_Position :: "32 word"

text \<open>\<^verbatim>\<open>fuse.Attr\<close>: the fields \<^verbatim>\<open>Attr\<close> writes; the times are in seconds.\<close>

record Attr =
  attr_Valid :: nat
  attr_Mode :: "32 word"
  attr_Size :: "64 word"
  attr_Crtime :: "64 word"
  attr_Mtime :: "64 word"
  attr_Gid :: "32 word"
  attr_Uid :: "32 word"
  attr_Blocks :: "64 word"
  attr_BlockSize :: "32 word"
  attr_Nlink :: "32 word"

text \<open>
  The code file.go calls and that is not part of it, as parameters: the functions of
  package \<^verbatim>\<open>filer\<close>, the xattr helpers of the package, the id mapping of \<^verbatim>\<open>wfs\<close>, and
  what the remote side answers at this moment (\<open>wfs_maybeLoadEntry\<close>: the error or the
  entry found, \<open>client_UpdateEntry\<close>: the error if any). A helper that receives the entry
  pointer returns the entry as it left it; \<open>setxattr_nil\<close> and \<open>removexattr_nil\<close> are the
  helpers' answers on a nil entry. \<open>sort_Slice\<close> is Go's \<^verbatim>\<open>sort.Slice\<close>, given the comparison
  and the slice: it is not stable, and the order in which it leaves chunks that the
  comparison does not separate is its own.
\<close>

record externals =
  NonOverlappingVisibleIntervals :: "FileChunk list \<Rightarrow> VisibleInterval list"
  MergeIntoVisibles :: "VisibleInterval list \<Rightarrow> FileChunk \<Rightarrow> VisibleInterval list"
  filer_FileSize :: "Entry \<Rightarrow> 64 word"
  ChunkSizeLimit :: "64 word"
  wfs_maybeLoadEntry :: "error + Entry option"
  client_UpdateEntry :: "error option"
  mapPbIdFromLocalToFiler :: "Entry \<Rightarrow> Entry"
  mapPbIdFromFilerToLocal :: "Entry \<Rightarrow> Entry"
  getxattr :: "Entry option \<Rightarrow> GetxattrRequest \<Rightarrow> error + 8 word list"
  listxattr :: "Entry option \<Rightarrow> ListxattrRequest \<Rightarrow> error + 8 word list"
  setxattr :: "Entry \<Rightarrow> SetxattrRequest \<Rightarrow> error option \<times> Entry"
  setxattr_nil :: "SetxattrRequest \<Rightarrow> error option"
  removexattr :: "Entry \<Rightarrow> RemovexattrRequest \<Rightarrow> error option \<times> Entry"
  removexattr_nil :: "RemovexattrRequest \<Rightarrow> error option"
  sort_Slice :: "(FileChunk \<Rightarrow> FileChunk \<Rightarrow> bool) \<Rightarrow> FileChunk list \<Rightarrow> FileChunk list"

definition blockSize :: "64 word" where
  "blockSize = 512"

subsection \<open>Entry, reader and cache\<close>

definition getEntry :: "File \<Rightarrow> Entry option" where
  "getEntry file = entry file"

definition setReader :: "Reader option \<Rightarrow> File \<Rightarrow> File" where
  "setReader rd file =
     (let file1 =
        (case reader file of
           None \<Rightarrow> file
         | Some r \<Rightarrow>
             if is_Closer r then file\<lparr>calls := calls file @ [Call_reader_Close]\<rparr>
             else file)
      in file1\<lparr>reader := rd\<rparr>)"

definition setEntry :: "externals \<Rightarrow> Entry \<Rightarrow> File \<Rightarrow> File" where
  "setEntry ext e file =
     setReader None
       (file\<lparr>entry := Some e,
             entryViewCache := NonOverlappingVisibleIntervals ext (Chunks e)\<rparr>)"

definition clearEntry :: "File \<Rightarrow> File" where
  "clearEntry file =
     setReader None (file\<lparr>entry := None, entryViewCache := []\<rparr>)"

text \<open>
  \<^verbatim>\<open>maybeLoadEntry\<close> returns the error or the entry pointer, and the node. When it
  returns a present entry, that entry is the node's own (\<^verbatim>\<open>file.entry\<close>).
\<close>

definition maybeLoadEntry ::
  "externals \<Rightarrow> File \<Rightarrow> (error + Entry option) \<times> File" where
  "maybeLoadEntry ext file =
     (let cached = getEntry file in
      if isOpen file > 0 then (Inr cached, file)
      else if (case cached of None \<Rightarrow> False | Some e \<Rightarrow> length (HardLinkId e) = 0)
      then (Inr cached, file)
      else
        (let file1 = file\<lparr>calls := calls file @ [Call_wfs_maybeLoadEntry]\<rparr> in
         case wfs_maybeLoadEntry ext of
           Inl err \<Rightarrow> (Inl err, file1)
         | Inr None \<Rightarrow> (Inr None, file1)
         | Inr (Some e) \<Rightarrow> (Inr (Some e), setEntry ext e file1)))"

subsection \<open>Chunks\<close>

definition lessThan_chunk :: "FileChunk \<Rightarrow> FileChunk \<Rightarrow> bool" where
  "lessThan_chunk a b =
     (if Mtime a = Mtime b then FileKey a < FileKey b
      else Mtime a <s Mtime b)"

text \<open>The first loop of \<^verbatim>\<open>addChunks\<close>, from index 1 on, with \<^verbatim>\<open>earliestChunk\<close> as it goes.\<close>

fun earliest_loop :: "FileChunk \<Rightarrow> FileChunk list \<Rightarrow> FileChunk" where
  "earliest_loop earliestChunk [] = earliestChunk"
| "earliest_loop earliestChunk (c # cs) =
     earliest_loop (if lessThan_chunk earliestChunk c then c else earliestChunk) cs"

text \<open>
  \<^verbatim>\<open>addChunks\<close>. \<open>spare\<close> is \<^verbatim>\<open>cap(chunks) - len(chunks)\<close> of the slice passed in:
  \<^verbatim>\<open>newChunks\<close> shares its array, so when the picked chunks fit into the spare capacity
  the sort in place reorders what \<^verbatim>\<open>newChunks\<close> sees, and otherwise \<^verbatim>\<open>append\<close> has moved
  \<^verbatim>\<open>chunks\<close> to a new array and \<^verbatim>\<open>newChunks\<close> is as passed in.
\<close>

definition addChunks ::
  "externals \<Rightarrow> nat \<Rightarrow> FileChunk list \<Rightarrow> File \<Rightarrow> (error + unit) \<times> File" where
  "addChunks ext spare chunks file =
     (case chunks of
        [] \<Rightarrow> (Inl Panic_index_out_of_range, file)
      | c0 # rest \<Rightarrow>
          (let earliestChunk = earliest_loop c0 rest in
           case getEntry file of
             None \<Rightarrow> (Inr (), file)
           | Some e \<Rightarrow>
               (let picked = filter (lessThan_chunk earliestChunk) (Chunks e);
                    sorted_chunks = sort_Slice ext lessThan_chunk (chunks @ picked);
                    newChunks =
                      (if length picked \<le> spare then take (length chunks) sorted_chunks
                       else chunks);
                    file1 = file\<lparr>entryViewCache :=
                              foldl (MergeIntoVisibles ext) (entryViewCache file) sorted_chunks\<rparr>;
                    file2 = setReader None file1
                in (Inr (), file2\<lparr>entry := Some (e\<lparr>Chunks := Chunks e @ newChunks\<rparr>)\<rparr>))))"

subsection \<open>Flush\<close>

text \<open>
  \<^verbatim>\<open>saveEntry\<close>. \<^verbatim>\<open>WithFilerClient\<close> is taken to run its callback once and to return
  what the callback returns. The entry passed is the node's own at every call in file.go,
  so the id mapping, done on it in place before the request and undone by the deferred
  call, shows in \<open>entry\<close>. A nil entry is taken to panic at its first dereference, in
  the id mapping.
\<close>

definition saveEntry :: "externals \<Rightarrow> Entry option \<Rightarrow> File \<Rightarrow> (error + unit) \<times> File" where
  "saveEntry ext eo file =
     (case eo of
        None \<Rightarrow> (Inl Panic_nil_dereference, file)
      | Some e \<Rightarrow>
          (let e1 = mapPbIdFromLocalToFiler ext e;
               file1 = file\<lparr>calls := calls file @ [Call_client_UpdateEntry e1]\<rparr>
           in case client_UpdateEntry ext of
                Some err \<Rightarrow>
                  (Inl EIO, file1\<lparr>entry := Some (mapPbIdFromFilerToLocal ext e1)\<rparr>)
              | None \<Rightarrow>
                  (Inr (),
                   file1\<lparr>calls := calls file1 @ [Call_metaCache_UpdateEntry e1],
                          entry := Some (mapPbIdFromFilerToLocal ext e1)\<rparr>)))"

subsection \<open>Setattr\<close>

text \<open>
  The loop of the truncation branch over \<^verbatim>\<open>entry.Chunks\<close>, with \<^verbatim>\<open>chunks\<close> and
  \<^verbatim>\<open>truncatedChunks\<close> as they grow. The chunks of a list are taken to be distinct
  objects, so that shrinking one in place does not reach another element.
\<close>

fun truncate_loop ::
  "64 word \<Rightarrow> FileChunk list \<Rightarrow> FileChunk list \<Rightarrow> FileChunk list
     \<Rightarrow> FileChunk list \<times> FileChunk list" where
  "truncate_loop reqSize [] chunks truncatedChunks = (chunks, truncatedChunks)"
| "truncate_loop reqSize (chunk # rest) chunks truncatedChunks =
     (if reqSize <s Offset chunk + Size chunk then
        (let int64Size = reqSize - Offset chunk in
         if 0 <s int64Size
         then truncate_loop reqSize rest (chunks @ [chunk\<lparr>Size := int64Size\<rparr>]) truncatedChunks
         else truncate_loop reqSize rest chunks (truncatedChunks @ [chunk]))
      else truncate_loop reqSize rest chunks truncatedChunks)"

text \<open>The block under \<^verbatim>\<open>req.Valid.Size()\<close>, on a present entry.\<close>

definition Setattr_Size :: "externals \<Rightarrow> SetattrRequest \<Rightarrow> Entry \<Rightarrow> File \<Rightarrow> Entry \<times> File" where
  "Setattr_Size ext req e file =
     (let (e1, file1) =
        (if req_Size req < filer_FileSize ext e then
           (let chunks = fst (truncate_loop (req_Size req) (Chunks e) [] []);
                file1 = file\<lparr>entryViewCache := NonOverlappingVisibleIntervals ext chunks\<rparr>
            in (e\<lparr>Chunks := chunks\<rparr>, setReader None file1))
         else (e, file))
      in (e1\<lparr>Attributes := (Attributes e1)\<lparr>FileSize := req_Size req\<rparr>\<rparr>,
          file1\<lparr>dirtyMetadata := True\<rparr>))"

text \<open>The attribute blocks of \<^verbatim>\<open>Setattr\<close> from \<^verbatim>\<open>Size\<close> to \<^verbatim>\<open>Mtime\<close>, on a present entry.\<close>

definition Setattr_mutate :: "externals \<Rightarrow> SetattrRequest \<Rightarrow> Entry \<Rightarrow> File \<Rightarrow> Entry \<times> File" where
  "Setattr_mutate ext req e file =
     (let (e1, f1) = (if Valid_Size req then Setattr_Size ext req e file else (e, file));
          (e2, f2) = (if Valid_Mode req
                      then (e1\<lparr>Attributes := (Attributes e1)\<lparr>FileMode := req_Mode req\<rparr>\<rparr>,
                            f1\<lparr>dirtyMetadata := True\<rparr>)
                      else (e1, f1));
          (e3, f3) = (if Valid_Uid req
                      then (e2\<lparr>Attributes := (Attributes e2)\<lparr>Uid := req_Uid req\<rparr>\<rparr>,
                            f2\<lparr>dirtyMetadata := True\<rparr>)
                      else (e2, f2));
          (e4, f4) = (if Valid_Gid req
                      then (e3\<lparr>Attributes := (Attributes e3)\<lparr>Gid := req_Gid req\<rparr>\<rparr>,
                            f3\<lparr>dirtyMetadata := True\<rparr>)
                      else (e3, f3));
          (e5, f5) = (if Valid_Crtime req
                      then (e4\<lparr>Attributes := (Attributes e4)\<lparr>Crtime := req_Crtime req\<rparr>\<rparr>,
                            f4\<lparr>dirtyMetadata := True\<rparr>)
                      else (e4, f4));
          (e6, f6) = (if Valid_Mtime req
                      then (e5\<lparr>Attributes := (Attributes e5)\<lparr>AttrMtime := req_Mtime req\<rparr>\<rparr>,
                            f5\<lparr>dirtyMetadata := True\<rparr>)
                      else (e5, f5))
      in (e6, f6\<lparr>entry := Some e6\<rparr>))"

text \<open>
  \<^verbatim>\<open>Setattr\<close>. Taking the handle's lock changes nothing of the node. On a nil entry the
  first requested attribute dereferences it.
\<close>

definition Setattr :: "externals \<Rightarrow> SetattrRequest \<Rightarrow> File \<Rightarrow> (error + unit) \<times> File" where
  "Setattr ext req file =
     (case maybeLoadEntry ext file of
        (Inl err, file1) \<Rightarrow> (Inl err, file1)
      | (Inr None, file1) \<Rightarrow>
          if Valid_Size req \<or> Valid_Mode req \<or> Valid_Uid req \<or> Valid_Gid req
             \<or> Valid_Crtime req \<or> Valid_Mtime req
          then (Inl Panic_nil_dereference, file1)
          else if isOpen file1 > 0 then (Inr (), file1)
          else if \<not> dirtyMetadata file1 then (Inr (), file1)
          else saveEntry ext None file1
      | (Inr (Some e), file1) \<Rightarrow>
          (let (e1, file2) = Setattr_mutate ext req e file1 in
           if isOpen file2 > 0 then (Inr (), file2)
           else if \<not> dirtyMetadata file2 then (Inr (), file2)
           else saveEntry ext (Some e1) file2))"

subsection \<open>Attr and the extended attributes\<close>

definition Attr :: "externals \<Rightarrow> Attr \<Rightarrow> File \<Rightarrow> (error + Attr) \<times> File" where
  "Attr ext attr file =
     (let cached = getEntry file;
          (r, file1) = (if isOpen file \<le> 0 \<or> cached = None then maybeLoadEntry ext file
                        else (Inr cached, file))
      in case r of
           Inl err \<Rightarrow> (Inl err, file1)
         | Inr None \<Rightarrow> (Inl ENOENT, file1)
         | Inr (Some e) \<Rightarrow>
             (let size = (if isOpen file1 > 0 then FileSize (Attributes e)
                          else filer_FileSize ext e)
              in (Inr (attr\<lparr>attr_Valid := 1,
                             attr_Mode := FileMode (Attributes e),
                             attr_Size := size,
                             attr_Crtime := Crtime (Attributes e),
                             attr_Mtime := AttrMtime (Attributes e),
                             attr_Gid := Gid (Attributes e),
                             attr_Uid := Uid (Attributes e),
                             attr_Blocks := size div blockSize + 1,
                             attr_BlockSize := ucast (ChunkSizeLimit ext),
                             attr_Nlink := (if 0 <s HardLinkCounter e then HardLinkCounter e
                                            else attr_Nlink attr)\<rparr>),
                  file1)))"

definition Getxattr ::
  "externals \<Rightarrow> GetxattrRequest \<Rightarrow> File \<Rightarrow> (error + 8 word list) \<times> File" where
  "Getxattr ext req file =
     (case maybeLoadEntry ext file of
        (Inl err, file1) \<Rightarrow> (Inl err, file1)
      | (Inr eo, file1) \<Rightarrow> (getxattr ext eo req, file1))"

definition Listxattr ::
  "externals \<Rightarrow> ListxattrRequest \<Rightarrow> File \<Rightarrow> (error + 8 word list) \<times> File" where
  "Listxattr ext req file =
     (case maybeLoadEntry ext file of
        (Inl err, file1) \<Rightarrow> (Inl err, file1)
      | (Inr eo, file1) \<Rightarrow> (listxattr ext eo req, file1))"

definition Setxattr :: "externals \<Rightarrow> SetxattrRequest \<Rightarrow> File \<Rightarrow> (error + unit) \<times> File" where
  "Setxattr ext req file =
     (case maybeLoadEntry ext file of
        (Inl err, file1) \<Rightarrow> (Inl err, file1)
      | (Inr None, file1) \<Rightarrow>
          (case setxattr_nil ext req of
             Some err \<Rightarrow> (Inl err, file1)
           | None \<Rightarrow> saveEntry ext None file1)
      | (Inr (Some e), file1) \<Rightarrow>
          (case setxattr ext e req of
             (Some err, e1) \<Rightarrow> (Inl err, file1\<lparr>entry := Some e1\<rparr>)
           | (None, e1) \<Rightarrow> saveEntry ext (Some e1) (file1\<lparr>entry := Some e1\<rparr>)))"

definition Removexattr ::
  "externals \<Rightarrow> RemovexattrRequest \<Rightarrow> File \<Rightarrow> (error + unit) \<times> File" where
  "Removexattr ext req file =
     (case maybeLoadEntry ext file of
        (Inl err, file1) \<Rightarrow> (Inl err, file1)
      | (Inr None, file1) \<Rightarrow>
          (case removexattr_nil ext req of
             Some err \<Rightarrow> (Inl err, file1)
           | None \<Rightarrow> saveEntry ext None file1)
      | (Inr (Some e), file1) \<Rightarrow>
          (case removexattr ext e req of
             (Some err, e1) \<Rightarrow> (Inl err, file1\<lparr>entry := Some e1\<rparr>)
           | (None, e1) \<Rightarrow> saveEntry ext (Some e1) (file1\<lparr>entry := Some e1\<rparr>)))"

subsection \<open>Open, Fsync, Forget\<close>

text \<open>
  Modelled from the spec: \<^verbatim>\<open>wfs.AcquireHandle\<close>, which \<^verbatim>\<open>Open\<close> calls, is not among the
  sources. The spec: open increments the node's open count and returns a new handle on
  the node. The handle is not modelled.
\<close>

definition Open :: "File \<Rightarrow> File" where
  "Open file = file\<lparr>isOpen := isOpen file + 1\<rparr>"

definition Fsync :: "File \<Rightarrow> (error + unit) \<times> File" where
  "Fsync file = (Inr (), file)"

text \<open>
  \<^verbatim>\<open>Forget\<close>. \<^verbatim>\<open>DeleteFsNode\<close> and \<^verbatim>\<open>ReleaseHandle\<close> work on the tables of \<^verbatim>\<open>wfs\<close>; of the
  node they are given the path only.
\<close>

definition Forget :: "File \<Rightarrow> File" where
  "Forget file =
     setReader None (file\<lparr>calls := calls file @ [Call_DeleteFsNode, Call_ReleaseHandle]\<rparr>)"

subsection \<open>The operations of the node, in sequence\<close>

datatype operation =
    Op_Attr Attr
  | Op_Getxattr GetxattrRequest
  | Op_Open
  | Op_Setattr SetattrRequest
  | Op_Setxattr SetxattrRequest
  | Op_Removexattr RemovexattrRequest
  | Op_Listxattr ListxattrRequest
  | Op_Fsync
  | Op_Forget
  | Op_maybeLoadEntry
  | Op_addChunks nat "FileChunk list"
  | Op_setReader "Reader option"
  | Op_setEntry Entry
  | Op_clearEntry
  | Op_saveEntry

text \<open>The node after one operation, whatever the operation returned.\<close>

fun run_op :: "externals \<Rightarrow> operation \<Rightarrow> File \<Rightarrow> File" where
  "run_op ext (Op_Attr attr) file = snd (Attr ext attr file)"
| "run_op ext (Op_Getxattr req) file = snd (Getxattr ext req file)"
| "run_op ext Op_Open file = Open file"
| "run_op ext (Op_Setattr req) file = snd (Setattr ext req file)"
| "run_op ext (Op_Setxattr req) file = snd (Setxattr ext req file)"
| "run_op ext (Op_Removexattr req) file = snd (Removexattr ext req file)"
| "run_op ext (Op_Listxattr req) file = snd (Listxattr ext req file)"
| "run_op ext Op_Fsync file = snd (Fsync file)"
| "run_op ext Op_Forget file = Forget file"
| "run_op ext Op_maybeLoadEntry file = snd (maybeLoadEntry ext file)"
| "run_op ext (Op_addChunks spare chunks) file = snd (addChunks ext spare chunks file)"
| "run_op ext (Op_setReader rd) file = setReader rd file"
| "run_op ext (Op_setEntry e) file = setEntry ext e file"
| "run_op ext Op_clearEntry file = clearEntry file"
| "run_op ext Op_saveEntry file = snd (saveEntry ext (entry file) file)"

text \<open>A run: each operation with the surroundings it meets.\<close>

fun run_ops :: "(externals \<times> operation) list \<Rightarrow> File \<Rightarrow> File" where
  "run_ops [] file = file"
| "run_ops ((ext, op) # rest) file = run_ops rest (run_op ext op file)"

subsection \<open>What an operation asked of its surroundings\<close>

text \<open>The calls made between two states of the node, and whether a flush is among them.\<close>

definition new_calls :: "File \<Rightarrow> File \<Rightarrow> call list" where
  "new_calls before after = drop (length (calls before)) (calls after)"

fun is_UpdateEntry :: "call \<Rightarrow> bool" where
  "is_UpdateEntry (Call_client_UpdateEntry e) = True"
| "is_UpdateEntry c = False"

definition flushed :: "File \<Rightarrow> File \<Rightarrow> bool" where
  "flushed before after = (filter is_UpdateEntry (new_calls before after) \<noteq> [])"

text \<open>
  The nodes on which \<^verbatim>\<open>maybeLoadEntry\<close> passes both of its early returns and asks the
  remote side: no handle open, and the entry absent or hard-linked.
\<close>

definition needs_reload :: "File \<Rightarrow> bool" where
  "needs_reload file =
     (isOpen file \<le> 0
      \<and> (case entry file of None \<Rightarrow> True | Some e \<Rightarrow> HardLinkId e \<noteq> []))"

subsection \<open>Concrete inputs\<close>

text \<open>
  Stand-ins for the surroundings, to run the node on concrete inputs: every chunk shows
  as an interval of its own, merging appends the chunk's interval, the file size is the
  larger of the recorded size and the furthest chunk end, ids map to themselves, the
  remote lookup finds nothing, the remote update succeeds, and the sort is an insertion
  sort (the inputs below hold no two chunks that the comparison does not separate).
\<close>

definition interval_of_chunk :: "FileChunk \<Rightarrow> VisibleInterval" where
  "interval_of_chunk c = \<lparr>start = Offset c, stop = Offset c + Size c, source_chunk = c\<rparr>"

definition example_FileSize :: "Entry \<Rightarrow> 64 word" where
  "example_FileSize e =
     fold max (map (\<lambda>c. Offset c + Size c) (Chunks e)) (FileSize (Attributes e))"

fun insert_chunk ::
  "(FileChunk \<Rightarrow> FileChunk \<Rightarrow> bool) \<Rightarrow> FileChunk \<Rightarrow> FileChunk list \<Rightarrow> FileChunk list" where
  "insert_chunk lt c [] = [c]"
| "insert_chunk lt c (d # ds) =
     (if lt d c then d # insert_chunk lt c ds else c # d # ds)"

definition insertion_sort :: "(FileChunk \<Rightarrow> FileChunk \<Rightarrow> bool) \<Rightarrow> FileChunk list \<Rightarrow> FileChunk list" where
  "insertion_sort lt cs = foldr (insert_chunk lt) cs []"

definition example_externals :: externals where
  "example_externals =
     \<lparr>NonOverlappingVisibleIntervals = map interval_of_chunk,
      MergeIntoVisibles = (\<lambda>v c. v @ [interval_of_chunk c]),
      filer_FileSize = example_FileSize,
      ChunkSizeLimit = 4194304,
      wfs_maybeLoadEntry = Inr None,
      client_UpdateEntry = None,
      mapPbIdFromLocalToFiler = id,
      mapPbIdFromFilerToLocal = id,
      getxattr = (\<lambda>eo r. Inr []),
      listxattr = (\<lambda>eo r. Inr []),
      setxattr = (\<lambda>e r. (None, e\<lparr>Extended := (sx_Name r, sx_Xattr r) # Extended e\<rparr>)),
      setxattr_nil = (\<lambda>r. Some EIO),
      removexattr =
        (\<lambda>e r. (None, e\<lparr>Extended := filter (\<lambda>p. fst p \<noteq> rx_Name r) (Extended e)\<rparr>)),
      removexattr_nil = (\<lambda>r. Some ENOENT),
      sort_Slice = insertion_sort\<rparr>"

definition chunk :: "64 word \<Rightarrow> 64 word \<Rightarrow> 64 word \<Rightarrow> 64 word \<Rightarrow> FileChunk" where
  "chunk off sz mt key = \<lparr>Offset = off, Size = sz, Mtime = mt, FileKey = key\<rparr>"

definition example_attributes :: FuseAttributes where
  "example_attributes =
     \<lparr>FileSize = 20, FileMode = 420, Uid = 1000, Gid = 1000, Crtime = 100, AttrMtime = 200\<rparr>"

definition example_entry :: "FileChunk list \<Rightarrow> Entry" where
  "example_entry cs =
     \<lparr>Chunks = cs, Attributes = example_attributes, HardLinkId = [],
      HardLinkCounter = 0, Extended = []\<rparr>"

definition example_file :: "Entry option \<Rightarrow> int \<Rightarrow> bool \<Rightarrow> File" where
  "example_file eo n d =
     \<lparr>entry = eo, entryViewCache = [], isOpen = n, reader = None,
      dirtyMetadata = d, calls = []\<rparr>"

definition no_request :: SetattrRequest where
  "no_request =
     \<lparr>Valid_Size = False, Valid_Mode = False, Valid_Uid = False, Valid_Gid = False,
      Valid_Crtime = False, Valid_Mtime = False, Valid_Handle = False,
      req_Size = 0, req_Mode = 0, req_Uid = 0, req_Gid = 0, req_Crtime = 0, req_Mtime = 0\<rparr>"

text \<open>A file of two chunks, bytes 0 to 10 and 10 to 20, and the request to cut it at 15.\<close>

definition two_chunk_file :: File where
  "two_chunk_file =
     example_file (Some (example_entry [chunk 0 10 1 1, chunk 10 10 2 2])) 0 False"

definition truncate_to_15 :: SetattrRequest where
  "truncate_to_15 = no_request\<lparr>Valid_Size := True, req_Size := 15\<rparr>"

text \<open>
  A file whose one chunk was written at time 2, and a batch of two chunks written at
  times 1 and 3.
\<close>

definition file_written_at_2 :: File where
  "file_written_at_2 = example_file (Some (example_entry [chunk 0 10 2 2])) 0 False"

definition batch_1_3 :: "FileChunk list" where
  "batch_1_3 = [chunk 0 10 1 1, chunk 0 10 3 3]"

text \<open>A hard-linked entry, cached on a node, and the entry the remote side holds for it.\<close>

definition hardlink_entry :: Entry where
  "hardlink_entry = (example_entry [chunk 0 10 1 1])\<lparr>HardLinkId := [7], HardLinkCounter := 2\<rparr>"

definition remote_entry :: Entry where
  "remote_entry =
     (example_entry [chunk 0 10 1 1, chunk 10 10 2 2])\<lparr>HardLinkId := [7], HardLinkCounter := 2\<rparr>"

definition remote_externals :: externals where
  "remote_externals = example_externals\<lparr>wfs_maybeLoadEntry := Inr (Some remote_entry)\<rparr>"

text \<open>Surroundings whose remote lookup fails.\<close>

definition lookup_failing_externals :: externals where
  "lookup_failing_externals = example_externals\<lparr>wfs_maybeLoadEntry := Inl EIO\<rparr>"

text \<open>
  An entry without hard link whose recorded size is 20, and surroundings whose remote
  side holds for it an entry of one chunk of 99 bytes.
\<close>

definition plain_remote_entry :: Entry where
  "plain_remote_entry = example_entry [chunk 0 99 5 5]"

definition plain_remote_externals :: externals where
  "plain_remote_externals = example_externals\<lparr>wfs_maybeLoadEntry := Inr (Some plain_remote_entry)\<rparr>"

definition zero_attr :: Attr where
  "zero_attr =
     \<lparr>attr_Valid = 0, attr_Mode = 0, attr_Size = 0, attr_Crtime = 0, attr_Mtime = 0,
      attr_Gid = 0, attr_Uid = 0, attr_Blocks = 0, attr_BlockSize = 0, attr_Nlink = 0\<rparr>"

definition mode_request :: SetattrRequest where
  "mode_request = no_request\<lparr>Valid_Mode := True, req_Mode := 384\<rparr>"

text \<open>A \<^verbatim>\<open>Setattr\<close> of the mode, on a node whose remote lookup succeeds.\<close>

definition mode_set :: "(externals \<times> operation) list" where
  "mode_set = [(remote_externals, Op_Setattr mode_request)]"

definition name_request :: SetxattrRequest where
  "name_request = \<lparr>sx_Name = ''user.k'', sx_Xattr = [1, 2], sx_Position = 0\<rparr>"

definition remove_request :: RemovexattrRequest where
  "remove_request = \<lparr>rx_Name = ''user.k''\<rparr>"

text \<open>A flush that succeeds, an idle call, and a \<^verbatim>\<open>Setattr\<close> that asks for nothing.\<close>

definition flushed_then_idle :: "(externals \<times> operation) list" where
  "flushed_then_idle =
     [(example_externals, Op_saveEntry), (example_externals, Op_Fsync),
      (example_externals, Op_Setattr no_request)]"

section \<open>Facts about the operations\<close>

text \<open>
  What each operation leaves of the open count and the dirty flag, and that the calls it
  makes are added at the end of the record.
\<close>

lemma new_calls_append: "calls after = calls before @ xs \<Longrightarrow> new_calls before after = xs"
  by (simp add: new_calls_def)

lemma setReader_fields:
  "entry (setReader rd f) = entry f"
  "entryViewCache (setReader rd f) = entryViewCache f"
  "isOpen (setReader rd f) = isOpen f"
  "dirtyMetadata (setReader rd f) = dirtyMetadata f"
  "reader (setReader rd f) = rd"
  by (simp_all add: setReader_def Let_def split: option.splits)

lemma setReader_calls:
  "\<exists>xs. calls (setReader rd f) = calls f @ xs \<and> filter is_UpdateEntry xs = []"
  by (simp add: setReader_def Let_def split: option.splits)

lemma setEntry_fields:
  "entry (setEntry ext e f) = Some e"
  "isOpen (setEntry ext e f) = isOpen f"
  "dirtyMetadata (setEntry ext e f) = dirtyMetadata f"
  by (simp_all add: setEntry_def setReader_fields)

lemma setEntry_calls:
  "\<exists>xs. calls (setEntry ext e f) = calls f @ xs \<and> filter is_UpdateEntry xs = []"
  using setReader_calls [of None "f\<lparr>entry := Some e,
             entryViewCache := NonOverlappingVisibleIntervals ext (Chunks e)\<rparr>"]
  by (simp add: setEntry_def)

lemma maybeLoadEntry_fields:
  "isOpen (snd (maybeLoadEntry ext f)) = isOpen f"
  "dirtyMetadata (snd (maybeLoadEntry ext f)) = dirtyMetadata f"
  by (simp_all add: maybeLoadEntry_def Let_def setEntry_fields split: option.splits sum.splits)

lemma maybeLoadEntry_calls:
  "\<exists>xs. calls (snd (maybeLoadEntry ext f)) = calls f @ xs \<and> filter is_UpdateEntry xs = []"
proof -
  have "\<exists>xs. calls (setEntry ext e (f\<lparr>calls := calls f @ [Call_wfs_maybeLoadEntry]\<rparr>)) = calls f @ xs
          \<and> filter is_UpdateEntry xs = []" for e
    using setEntry_calls [of ext e "f\<lparr>calls := calls f @ [Call_wfs_maybeLoadEntry]\<rparr>"]
    by auto
  then show ?thesis
    by (simp add: maybeLoadEntry_def Let_def split: option.splits sum.splits)
qed

text \<open>A present entry returned by \<open>maybeLoadEntry\<close> is the node's own.\<close>

lemma maybeLoadEntry_own:
  "maybeLoadEntry ext f = (Inr (Some e), f1) \<Longrightarrow> entry f1 = Some e"
  by (auto simp: maybeLoadEntry_def Let_def getEntry_def setEntry_fields
      split: if_splits option.splits sum.splits)

lemma Setattr_Size_fields:
  "isOpen (snd (Setattr_Size ext req e f)) = isOpen f"
  "dirtyMetadata (snd (Setattr_Size ext req e f))"
  by (simp_all add: Setattr_Size_def Let_def setReader_fields split: prod.splits)

lemma Setattr_Size_calls:
  "\<exists>xs. calls (snd (Setattr_Size ext req e f)) = calls f @ xs \<and> filter is_UpdateEntry xs = []"
proof (cases "req_Size req < filer_FileSize ext e")
  case True
  let ?f1 = "f\<lparr>entryViewCache := NonOverlappingVisibleIntervals ext
                 (fst (truncate_loop (req_Size req) (Chunks e) [] []))\<rparr>"
  from setReader_calls [of None ?f1] True show ?thesis
    by (simp add: Setattr_Size_def Let_def)
next
  case False
  then show ?thesis by (simp add: Setattr_Size_def Let_def)
qed

lemma Setattr_mutate_isOpen:
  "isOpen (snd (Setattr_mutate ext req e f)) = isOpen f"
  by (simp add: Setattr_mutate_def Let_def Setattr_Size_fields split: prod.splits)
     (metis Setattr_Size_fields(1) snd_conv)

lemma Setattr_mutate_dirty:
  "dirtyMetadata (snd (Setattr_mutate ext req e f)) =
     (dirtyMetadata f \<or> Valid_Size req \<or> Valid_Mode req \<or> Valid_Uid req \<or> Valid_Gid req
        \<or> Valid_Crtime req \<or> Valid_Mtime req)"
  using Setattr_Size_fields(2) [of ext req e f]
  by (auto simp: Setattr_mutate_def Let_def split: prod.splits)

lemma Setattr_mutate_calls:
  "\<exists>xs. calls (snd (Setattr_mutate ext req e f)) = calls f @ xs \<and> filter is_UpdateEntry xs = []"
  using Setattr_Size_calls [of ext req e f]
  by (auto simp: Setattr_mutate_def Let_def split: prod.splits)

lemma saveEntry_Some:
  "fst (saveEntry ext (Some e) f) = (case client_UpdateEntry ext of Some err \<Rightarrow> Inl EIO | None \<Rightarrow> Inr ())"
  "calls (snd (saveEntry ext (Some e) f)) =
     calls f @ Call_client_UpdateEntry (mapPbIdFromLocalToFiler ext e)
       # (case client_UpdateEntry ext of Some err \<Rightarrow> []
          | None \<Rightarrow> [Call_metaCache_UpdateEntry (mapPbIdFromLocalToFiler ext e)])"
  "dirtyMetadata (snd (saveEntry ext (Some e) f)) = dirtyMetadata f"
  "isOpen (snd (saveEntry ext (Some e) f)) = isOpen f"
  by (simp_all add: saveEntry_def Let_def split: option.splits)

lemma saveEntry_dirty:
  "dirtyMetadata (snd (saveEntry ext eo f)) = dirtyMetadata f"
  by (cases eo) (simp_all add: saveEntry_Some, simp add: saveEntry_def)

lemma Setattr_loaded:
  assumes "maybeLoadEntry ext file = (Inr (Some e), file1)"
  shows "Setattr ext req file =
     (let e1 = fst (Setattr_mutate ext req e file1);
          file2 = snd (Setattr_mutate ext req e file1)
      in if isOpen file2 > 0 then (Inr (), file2)
         else if \<not> dirtyMetadata file2 then (Inr (), file2)
         else saveEntry ext (Some e1) file2)"
  using assms by (simp add: Setattr_def Let_def split: prod.splits)

lemma Setattr_loaded_dirty:
  assumes "maybeLoadEntry ext file = (Inr (Some e), file1)"
  shows "dirtyMetadata (snd (Setattr ext req file)) =
     (dirtyMetadata file \<or> Valid_Size req \<or> Valid_Mode req \<or> Valid_Uid req \<or> Valid_Gid req
        \<or> Valid_Crtime req \<or> Valid_Mtime req)"
proof -
  have d: "dirtyMetadata file1 = dirtyMetadata file"
    using maybeLoadEntry_fields(2) [of ext "file"] assms by simp
  show ?thesis
    unfolding Setattr_loaded [OF assms]
    using Setattr_mutate_dirty [of ext req e file1] d
    by (auto simp: Let_def saveEntry_Some)
qed

lemma Setattr_loaded_flushed:
  assumes "maybeLoadEntry ext file = (Inr (Some e), file1)"
  shows "flushed file (snd (Setattr ext req file)) =
     (isOpen file \<le> 0 \<and> dirtyMetadata (snd (Setattr ext req file)))"
proof -
  let ?file2 = "snd (Setattr_mutate ext req e file1)"
  from maybeLoadEntry_calls [of ext "file"] assms
  obtain xs where xs: "calls file1 = calls file @ xs" "filter is_UpdateEntry xs = []" by auto
  from Setattr_mutate_calls [of ext req e file1]
  obtain ys where ys: "calls ?file2 = calls file1 @ ys" "filter is_UpdateEntry ys = []" by auto
  have o: "isOpen ?file2 = isOpen file"
    using maybeLoadEntry_fields(1) [of ext "file"] assms by (simp add: Setattr_mutate_isOpen)
  have quiet: "\<not> flushed file ?file2"
    by (simp add: flushed_def new_calls_def xs ys)
  have loud: "flushed file (snd (saveEntry ext (Some e') ?file2))" for e'
    by (simp add: flushed_def new_calls_def saveEntry_Some xs ys)
  show ?thesis
    unfolding Setattr_loaded [OF assms]
    using o quiet loud by (auto simp: Let_def saveEntry_Some)
qed

lemma Setattr_loaded_open:
  assumes "maybeLoadEntry ext file = (Inr (Some e), file1)" and "0 < isOpen file"
  shows "fst (Setattr ext req file) = Inr ()"
proof -
  have "isOpen (snd (Setattr_mutate ext req e file1)) = isOpen file"
    using maybeLoadEntry_fields(1) [of ext "file"] assms(1) by (simp add: Setattr_mutate_isOpen)
  then show ?thesis
    unfolding Setattr_loaded [OF assms(1)] using assms(2) by (simp add: Let_def)
qed

lemma Attr_dirty: "dirtyMetadata (snd (Attr ext attr f)) = dirtyMetadata f"
proof -
  obtain r f1 where m: "maybeLoadEntry ext f = (r, f1)" by (cases "maybeLoadEntry ext f")
  have "dirtyMetadata f1 = dirtyMetadata f"
    using maybeLoadEntry_fields(2) [of ext f] m by simp
  with m show ?thesis
    by (simp add: Attr_def Let_def getEntry_def split: sum.splits option.splits)
qed

lemma Getxattr_dirty: "dirtyMetadata (snd (Getxattr ext req f)) = dirtyMetadata f"
  using maybeLoadEntry_fields(2) [of ext f]
  by (auto simp: Getxattr_def split: prod.splits sum.splits)

lemma Listxattr_dirty: "dirtyMetadata (snd (Listxattr ext req f)) = dirtyMetadata f"
  using maybeLoadEntry_fields(2) [of ext f]
  by (auto simp: Listxattr_def split: prod.splits sum.splits)

lemma Setxattr_dirty: "dirtyMetadata (snd (Setxattr ext req f)) = dirtyMetadata f"
  using maybeLoadEntry_fields(2) [of ext f]
  by (auto simp: Setxattr_def saveEntry_dirty split: prod.splits sum.splits option.splits)

lemma Removexattr_dirty: "dirtyMetadata (snd (Removexattr ext req f)) = dirtyMetadata f"
  using maybeLoadEntry_fields(2) [of ext f]
  by (auto simp: Removexattr_def saveEntry_dirty split: prod.splits sum.splits option.splits)

lemma addChunks_dirty: "dirtyMetadata (snd (addChunks ext spare chunks f)) = dirtyMetadata f"
  by (simp add: addChunks_def Let_def setReader_fields split: list.splits option.splits)

lemma Setattr_dirty: "dirtyMetadata f \<Longrightarrow> dirtyMetadata (snd (Setattr ext req f))"
proof -
  assume d: "dirtyMetadata f"
  obtain r f1 where m: "maybeLoadEntry ext f = (r, f1)" by (cases "maybeLoadEntry ext f")
  have d1: "dirtyMetadata f1"
    using maybeLoadEntry_fields(2) [of ext f] m d by simp
  show ?thesis
  proof (cases r)
    case (Inl err)
    with m d1 show ?thesis by (simp add: Setattr_def)
  next
    case (Inr eo)
    show ?thesis
    proof (cases eo)
      case None
      with Inr m d1 show ?thesis by (simp add: Setattr_def saveEntry_dirty)
    next
      case (Some e)
      with Inr m have "maybeLoadEntry ext f = (Inr (Some e), f1)" by simp
      from Setattr_loaded_dirty [OF this, of req] d show ?thesis by simp
    qed
  qed
qed

lemma run_op_dirty: "dirtyMetadata f \<Longrightarrow> dirtyMetadata (run_op ext op f)"
  by (cases op)
     (simp_all add: Attr_dirty Getxattr_dirty Listxattr_dirty Setxattr_dirty Removexattr_dirty
        addChunks_dirty Setattr_dirty saveEntry_dirty maybeLoadEntry_fields setReader_fields
        setEntry_fields Open_def Fsync_def Forget_def clearEntry_def)

lemma run_ops_dirty: "dirtyMetadata f \<Longrightarrow> dirtyMetadata (run_ops steps f)"
proof (induction steps arbitrary: f)
  case Nil
  then show ?case by simp
next
  case (Cons step steps)
  obtain ext op where step: "step = (ext, op)" by (cases step)
  from Cons.prems have "dirtyMetadata (run_op ext op f)" by (rule run_op_dirty)
  then have "dirtyMetadata (run_ops steps (run_op ext op f))" by (rule Cons.IH)
  with step show ?case by simp
qed

text \<open>The chunks that survive the truncation loop, and the chunk the first loop of \<^verbatim>\<open>addChunks\<close> ends on.\<close>

lemma truncate_loop_chunks:
  "fst (truncate_loop n cs acc tr) =
     acc @ map (\<lambda>c. c\<lparr>Size := n - Offset c\<rparr>)
             (filter (\<lambda>c. n <s Offset c + Size c \<and> 0 <s n - Offset c) cs)"
  by (induction cs arbitrary: acc tr) (simp_all add: Let_def)

lemma sint_eq_iff: "sint (x :: 64 word) = sint y \<longleftrightarrow> x = y"
  by (auto intro: signed_word_eqI)

lemma lessThan_chunk_trans:
  "lessThan_chunk a b \<Longrightarrow> lessThan_chunk b c \<Longrightarrow> lessThan_chunk a c"
  by (auto simp: lessThan_chunk_def word_sless_alt sint_eq_iff split: if_splits)

lemma not_lessThan_chunk_trans:
  "\<not> lessThan_chunk a b \<Longrightarrow> \<not> lessThan_chunk b c \<Longrightarrow> \<not> lessThan_chunk a c"
  by (auto simp: lessThan_chunk_def word_sless_alt sint_eq_iff split: if_splits)

lemma earliest_loop_not_below_start:
  "\<not> lessThan_chunk (earliest_loop c cs) c"
proof (induction cs arbitrary: c)
  case Nil
  show ?case by (simp add: lessThan_chunk_def)
next
  case (Cons d cs)
  show ?case
  proof (cases "lessThan_chunk c d")
    case True
    have "\<not> lessThan_chunk (earliest_loop d cs) d" by (rule Cons.IH)
    moreover have "\<not> lessThan_chunk d c"
      using True by (auto simp: lessThan_chunk_def word_sless_alt sint_eq_iff split: if_splits)
    ultimately have "\<not> lessThan_chunk (earliest_loop d cs) c"
      by (rule not_lessThan_chunk_trans)
    with True show ?thesis by simp
  next
    case False
    with Cons.IH [of c] show ?thesis by simp
  qed
qed

lemma earliest_loop_is_newest:
  "x \<in> set (c # cs) \<Longrightarrow> \<not> lessThan_chunk (earliest_loop c cs) x"
proof (induction cs arbitrary: c)
  case Nil
  then show ?case by (simp add: lessThan_chunk_def)
next
  case (Cons d cs)
  let ?m = "if lessThan_chunk c d then d else c"
  have step: "earliest_loop c (d # cs) = earliest_loop ?m cs" by simp
  consider "x = c" | "x = d" | "x \<in> set cs" using Cons.prems by auto
  then show ?case
  proof cases
    case 1
    then show ?thesis using earliest_loop_not_below_start [of c "d # cs"] by simp
  next
    case 2
    have a: "\<not> lessThan_chunk (earliest_loop ?m cs) ?m"
      by (rule earliest_loop_not_below_start)
    have b: "\<not> lessThan_chunk ?m d"
      by (auto simp: lessThan_chunk_def)
    from a b have "\<not> lessThan_chunk (earliest_loop ?m cs) d"
      by (rule not_lessThan_chunk_trans)
    with 2 step show ?thesis by simp
  next
    case 3
    then have "x \<in> set (?m # cs)" by simp
    then have "\<not> lessThan_chunk (earliest_loop ?m cs) x" by (rule Cons.IH)
    with step show ?thesis by simp
  qed
qed

section \<open>The claims\<close>

text \<open>
  Claim C1: when \<^verbatim>\<open>Setattr\<close> cuts a file to a smaller size, every chunk entirely beyond
  the new size is removed, the chunk across the new end is kept with its size shrunk to
  the new size minus its offset, every chunk entirely within the new size is kept
  unchanged, and the interval cache is recomputed from the chunks that survive.

  The loop keeps a chunk only in the branch of the chunks that reach beyond the new size
  (\<open>truncate_loop_chunks\<close>): a chunk entirely within the new size is appended to neither
  list and is gone from the entry. On the file of chunks 0 to 10 and 10 to 20, cut at
  15, \<^verbatim>\<open>Setattr\<close> succeeds and leaves only the second chunk, shrunk to 5 bytes; the chunk
  of bytes 0 to 10 is lost.
\<close>

theorem Setattr_truncation_drops_inner_chunk:
  "fst (Setattr example_externals truncate_to_15 two_chunk_file) = Inr ()
   \<and> map_option Chunks (entry two_chunk_file) = Some [chunk 0 10 1 1, chunk 10 10 2 2]
   \<and> Offset (chunk 0 10 1 1) + Size (chunk 0 10 1 1) \<le> req_Size truncate_to_15
   \<and> map_option Chunks (entry (snd (Setattr example_externals truncate_to_15 two_chunk_file)))
       = Some [chunk 10 5 2 2]"
  by code_simp

text \<open>
  Claim C2: for a non-empty batch, \<^verbatim>\<open>addChunks\<close> takes the oldest chunk of the batch (by
  mtime, then by file key) as the merge horizon, and folds into the merge exactly the
  existing chunks of the entry that are newer than it.

  The loop replaces \<^verbatim>\<open>earliestChunk\<close> whenever it is less than the next chunk, so it ends
  on a chunk that none of the batch is newer than (\<open>earliest_loop_is_newest\<close>). For the
  batch written at times 1 and 3 the horizon is the chunk of time 3; the existing chunk
  of time 2 is newer than the oldest chunk of the batch, yet it is not merged: the cache
  afterwards holds the two chunks of the batch only.
\<close>

theorem addChunks_horizon_is_newest:
  "earliest_loop (chunk 0 10 1 1) [chunk 0 10 3 3] = chunk 0 10 3 3
   \<and> lessThan_chunk (chunk 0 10 1 1) (chunk 0 10 2 2)
   \<and> entryViewCache (snd (addChunks example_externals 0 batch_1_3 file_written_at_2))
       = [interval_of_chunk (chunk 0 10 1 1), interval_of_chunk (chunk 0 10 3 3)]"
  by code_simp

text \<open>
  Claim C3: \<^verbatim>\<open>addChunks\<close> on an empty batch never fails; it changes neither the entry nor
  the interval cache nor the reader.

  The first statement of \<^verbatim>\<open>addChunks\<close> reads \<^verbatim>\<open>newChunks[0]\<close> with no check of the length:
  on an empty batch it panics with an index out of range, whatever the node holds.
\<close>

theorem addChunks_empty_batch_panics:
  "addChunks ext spare [] file = (Inl Panic_index_out_of_range, file)"
  by (simp add: addChunks_def)

text \<open>
  Claim C4: whenever the cached entry carries a hard-link id, \<^verbatim>\<open>maybeLoadEntry\<close> reloads
  the entry from the remote side before it returns it, whatever the open count.

  With a handle open the first test of \<^verbatim>\<open>maybeLoadEntry\<close> returns the cached entry: a
  node with open count 1 and a hard-linked entry gets that entry back, and nothing is
  asked of the remote side, although the remote side holds another entry.
\<close>

theorem maybeLoadEntry_open_hardlink_counterexample:
  "map_option HardLinkId (entry (example_file (Some hardlink_entry) 1 False)) = Some [7]
   \<and> maybeLoadEntry remote_externals (example_file (Some hardlink_entry) 1 False)
       = (Inr (Some hardlink_entry), example_file (Some hardlink_entry) 1 False)
   \<and> new_calls (example_file (Some hardlink_entry) 1 False)
        (snd (maybeLoadEntry remote_externals (example_file (Some hardlink_entry) 1 False))) = []"
  by code_simp

text \<open>
  Claim C4, amended: when the cached entry carries a hard-link id and the open count is
  not positive, \<^verbatim>\<open>maybeLoadEntry\<close> first asks the remote side, returns what the remote
  side answers (its error, or the entry it found, or none), and the node holds the entry
  found if there is one; when the open count is positive it returns the cached entry and
  asks nothing.
\<close>

theorem maybeLoadEntry_reloads_hardlink:
  assumes "entry file = Some e" and "HardLinkId e \<noteq> []"
  shows "fst (maybeLoadEntry ext file) =
           (if 0 < isOpen file then Inr (Some e) else wfs_maybeLoadEntry ext)
   \<and> take 1 (new_calls file (snd (maybeLoadEntry ext file))) =
           (if 0 < isOpen file then [] else [Call_wfs_maybeLoadEntry])
   \<and> entry (snd (maybeLoadEntry ext file)) =
           (if 0 < isOpen file then Some e
            else case wfs_maybeLoadEntry ext of Inr (Some e') \<Rightarrow> Some e' | _ \<Rightarrow> Some e)"
proof (cases "0 < isOpen file")
  case True
  with assms show ?thesis
    by (simp add: maybeLoadEntry_def getEntry_def new_calls_def)
next
  case False
  let ?f1 = "file\<lparr>calls := calls file @ [Call_wfs_maybeLoadEntry]\<rparr>"
  have c: "\<exists>xs. calls (setEntry ext e' ?f1) = calls file @ Call_wfs_maybeLoadEntry # xs" for e'
    using setEntry_calls [of ext e' ?f1] by auto
  have n: "take 1 (new_calls file (setEntry ext e' ?f1)) = [Call_wfs_maybeLoadEntry]" for e'
    using c [of e'] by (auto simp: new_calls_def)
  show ?thesis
    using assms False n
    by (auto simp: maybeLoadEntry_def Let_def getEntry_def setEntry_fields new_calls_def
        split: sum.splits option.splits)
qed

theorem maybeLoadEntry_reloads_hardlink_witness:
  "entry (example_file (Some hardlink_entry) 0 False) = Some hardlink_entry
   \<and> HardLinkId hardlink_entry \<noteq> []
   \<and> fst (maybeLoadEntry remote_externals (example_file (Some hardlink_entry) 0 False))
       = Inr (Some remote_entry)
   \<and> take 1 (new_calls (example_file (Some hardlink_entry) 0 False)
        (snd (maybeLoadEntry remote_externals (example_file (Some hardlink_entry) 0 False))))
       = [Call_wfs_maybeLoadEntry]
   \<and> entry (snd (maybeLoadEntry remote_externals (example_file (Some hardlink_entry) 0 False)))
       = Some remote_entry"
proof -
  have h1: "\<not> 0 < isOpen (example_file (Some hardlink_entry) 0 False)"
    by (simp add: example_file_def)
  have h2: "entry (example_file (Some hardlink_entry) 0 False) = Some hardlink_entry"
    by (simp add: example_file_def)
  have h3: "HardLinkId hardlink_entry \<noteq> []"
    by (simp add: hardlink_entry_def)
  have r: "wfs_maybeLoadEntry remote_externals = Inr (Some remote_entry)"
    by (simp add: remote_externals_def)
  from maybeLoadEntry_reloads_hardlink [OF h2 h3, of remote_externals] h1 h2 h3 r
  show ?thesis by simp
qed

text \<open>
  Claim C5: a \<^verbatim>\<open>Setxattr\<close> or \<^verbatim>\<open>Removexattr\<close> that succeeds locally marks the node dirty,
  flushes at once when no handle is open, and leaves the flush to the release of the
  handle when one is open.

  On a node with open count 1 and a clean flag, \<^verbatim>\<open>Setxattr\<close> succeeds, has sent the
  update to the remote side, and the flag is still clean.
\<close>

theorem Setxattr_open_counterexample:
  "isOpen (example_file (Some (example_entry [])) 1 False) = 1
   \<and> fst (Setxattr example_externals name_request (example_file (Some (example_entry [])) 1 False))
       = Inr ()
   \<and> flushed (example_file (Some (example_entry [])) 1 False)
        (snd (Setxattr example_externals name_request
               (example_file (Some (example_entry [])) 1 False)))
   \<and> \<not> dirtyMetadata
        (snd (Setxattr example_externals name_request
               (example_file (Some (example_entry [])) 1 False)))"
  by code_simp

text \<open>
  Claim C5, amended: a \<^verbatim>\<open>Setxattr\<close> or \<^verbatim>\<open>Removexattr\<close> whose entry is present and whose
  helper succeeds goes on to \<^verbatim>\<open>saveEntry\<close> with the entry as the helper left it: the
  update is sent to the remote side at once, whether or not a handle is open, and the
  dirty flag stays as it was.
\<close>

theorem xattr_mutation_flushes_at_once:
  assumes "maybeLoadEntry ext file = (Inr (Some e), file1)"
  shows "(setxattr ext e sreq = (None, e1) \<longrightarrow>
            Setxattr ext sreq file = saveEntry ext (Some e1) (file1\<lparr>entry := Some e1\<rparr>)
            \<and> flushed file (snd (Setxattr ext sreq file))
            \<and> dirtyMetadata (snd (Setxattr ext sreq file)) = dirtyMetadata file)
   \<and> (removexattr ext e rreq = (None, e2) \<longrightarrow>
            Removexattr ext rreq file = saveEntry ext (Some e2) (file1\<lparr>entry := Some e2\<rparr>)
            \<and> flushed file (snd (Removexattr ext rreq file))
            \<and> dirtyMetadata (snd (Removexattr ext rreq file)) = dirtyMetadata file)"
proof -
  from maybeLoadEntry_calls [of ext "file"] assms
  obtain xs where xs: "calls file1 = calls file @ xs" by auto
  have d: "dirtyMetadata file1 = dirtyMetadata file"
    using maybeLoadEntry_fields(2) [of ext "file"] assms by simp
  have fl: "flushed file (snd (saveEntry ext (Some e') (file1\<lparr>entry := Some e'\<rparr>)))" for e'
    by (simp add: flushed_def new_calls_def saveEntry_Some xs)
  have s: "Setxattr ext sreq file = saveEntry ext (Some e1) (file1\<lparr>entry := Some e1\<rparr>)"
    if "setxattr ext e sreq = (None, e1)"
    using assms that by (simp add: Setxattr_def)
  have r: "Removexattr ext rreq file = saveEntry ext (Some e2) (file1\<lparr>entry := Some e2\<rparr>)"
    if "removexattr ext e rreq = (None, e2)"
    using assms that by (simp add: Removexattr_def)
  show ?thesis
    using s r d fl by (simp add: saveEntry_Some)
qed

theorem xattr_mutation_flushes_at_once_witness:
  "flushed (example_file (Some (example_entry [])) 1 False)
     (snd (Setxattr example_externals name_request (example_file (Some (example_entry [])) 1 False)))
   \<and> \<not> dirtyMetadata
     (snd (Setxattr example_externals name_request (example_file (Some (example_entry [])) 1 False)))
   \<and> flushed (example_file (Some (example_entry [])) 1 False)
     (snd (Removexattr example_externals remove_request
            (example_file (Some (example_entry [])) 1 False)))"
proof -
  have h1: "maybeLoadEntry example_externals (example_file (Some (example_entry [])) 1 False)
              = (Inr (Some (example_entry [])), example_file (Some (example_entry [])) 1 False)"
    by (simp add: maybeLoadEntry_def example_file_def getEntry_def)
  have h2: "setxattr example_externals (example_entry []) name_request
              = (None, (example_entry [])\<lparr>Extended := [(''user.k'', [1, 2])]\<rparr>)"
    by (simp add: example_externals_def name_request_def example_entry_def)
  have h3: "removexattr example_externals (example_entry []) remove_request
              = (None, example_entry [])"
    by (simp add: example_externals_def remove_request_def example_entry_def)
  have c: "\<not> dirtyMetadata (example_file (Some (example_entry [])) 1 False)"
    by (simp add: example_file_def)
  from xattr_mutation_flushes_at_once [OF h1, of name_request
      "(example_entry [])\<lparr>Extended := [(''user.k'', [1, 2])]\<rparr>" remove_request "example_entry []"]
    h2 h3 c
  show ?thesis by blast
qed

text \<open>
  Claim C6: in every \<^verbatim>\<open>Setattr\<close> each requested attribute (size, mode, uid, gid, crtime,
  mtime) sets the dirty flag; \<^verbatim>\<open>Setattr\<close> sends the update to the remote side if and only
  if no handle is open and the node is dirty; with a handle open it returns success and
  sends nothing.

  \<^verbatim>\<open>Setattr\<close> returns the error of \<^verbatim>\<open>maybeLoadEntry\<close> before it looks at the request. On a
  closed node with a hard-linked entry whose remote lookup fails, a request for the mode
  returns that error: a clean flag stays clean, and a node that is dirty, with no handle
  open, sends nothing.
\<close>

theorem Setattr_failed_load_counterexample:
  "Valid_Mode mode_request
   \<and> isOpen (example_file (Some hardlink_entry) 0 True) \<le> 0
   \<and> fst (Setattr lookup_failing_externals mode_request
            (example_file (Some hardlink_entry) 0 False)) = Inl EIO
   \<and> \<not> dirtyMetadata (snd (Setattr lookup_failing_externals mode_request
                              (example_file (Some hardlink_entry) 0 False)))
   \<and> dirtyMetadata (snd (Setattr lookup_failing_externals mode_request
                            (example_file (Some hardlink_entry) 0 True)))
   \<and> \<not> flushed (example_file (Some hardlink_entry) 0 True)
          (snd (Setattr lookup_failing_externals mode_request
                 (example_file (Some hardlink_entry) 0 True)))"
  by code_simp

text \<open>
  Claim C6, amended: in every \<^verbatim>\<open>Setattr\<close> whose load of the entry returns a present entry,
  each requested attribute (size, mode, uid, gid, crtime, mtime) sets the dirty flag;
  \<^verbatim>\<open>Setattr\<close> sends the update to the remote side if and only if no handle is open and
  the node is dirty; with a handle open it returns success and sends nothing.

  The dirty flag afterwards is the flag before or any of the six requested.
\<close>

theorem Setattr_dirty_and_flush:
  assumes "maybeLoadEntry ext file = (Inr (Some e), file1)"
  shows "dirtyMetadata (snd (Setattr ext req file)) =
           (dirtyMetadata file \<or> Valid_Size req \<or> Valid_Mode req \<or> Valid_Uid req
              \<or> Valid_Gid req \<or> Valid_Crtime req \<or> Valid_Mtime req)
   \<and> flushed file (snd (Setattr ext req file)) =
           (isOpen file \<le> 0 \<and> dirtyMetadata (snd (Setattr ext req file)))
   \<and> (0 < isOpen file \<longrightarrow>
           fst (Setattr ext req file) = Inr () \<and> \<not> flushed file (snd (Setattr ext req file)))"
  using Setattr_loaded_dirty [OF assms, of req] Setattr_loaded_flushed [OF assms, of req]
    Setattr_loaded_open [OF assms, of req]
  by auto

theorem Setattr_dirty_and_flush_witness:
  "dirtyMetadata (snd (Setattr example_externals (no_request\<lparr>Valid_Mode := True, req_Mode := 384\<rparr>)
                        (example_file (Some (example_entry [])) 0 False)))
   \<and> flushed (example_file (Some (example_entry [])) 0 False)
        (snd (Setattr example_externals (no_request\<lparr>Valid_Mode := True, req_Mode := 384\<rparr>)
               (example_file (Some (example_entry [])) 0 False)))
   \<and> fst (Setattr example_externals (no_request\<lparr>Valid_Mode := True, req_Mode := 384\<rparr>)
            (example_file (Some (example_entry [])) 1 False)) = Inr ()
   \<and> \<not> flushed (example_file (Some (example_entry [])) 1 False)
        (snd (Setattr example_externals (no_request\<lparr>Valid_Mode := True, req_Mode := 384\<rparr>)
               (example_file (Some (example_entry [])) 1 False)))"
proof -
  let ?req = "no_request\<lparr>Valid_Mode := True, req_Mode := 384\<rparr>"
  have closed: "maybeLoadEntry example_externals (example_file (Some (example_entry [])) 0 False)
      = (Inr (Some (example_entry [])), example_file (Some (example_entry [])) 0 False)"
    by (simp add: maybeLoadEntry_def example_file_def getEntry_def example_entry_def Let_def)
  have opened: "maybeLoadEntry example_externals (example_file (Some (example_entry [])) 1 False)
      = (Inr (Some (example_entry [])), example_file (Some (example_entry [])) 1 False)"
    by (simp add: maybeLoadEntry_def example_file_def getEntry_def)
  have v: "Valid_Mode ?req" by simp
  have o0: "isOpen (example_file (Some (example_entry [])) 0 False) \<le> 0"
    by (simp add: example_file_def)
  have o1: "0 < isOpen (example_file (Some (example_entry [])) 1 False)"
    by (simp add: example_file_def)
  from Setattr_dirty_and_flush [OF closed, of ?req] Setattr_dirty_and_flush [OF opened, of ?req]
    v o0 o1
  show ?thesis by simp
qed

text \<open>
  Claim C7: \<^verbatim>\<open>Attr\<close> reports the size recorded in the entry's \<^verbatim>\<open>FileSize\<close> attribute when
  the open count is positive, and otherwise the size computed from the entry by
  \<^verbatim>\<open>filer.FileSize\<close> after the entry was reloaded from the remote side, which happens
  when the open count is not positive or the entry is absent.

  On a closed node whose cached entry has no hard link, \<^verbatim>\<open>maybeLoadEntry\<close> returns the
  cached entry at its second test: \<^verbatim>\<open>Attr\<close> reports the size 20 computed from the cached
  entry and asks nothing of the remote side, which holds an entry of size 99.
\<close>

theorem Attr_closed_cached_counterexample:
  "isOpen (example_file (Some (example_entry [chunk 0 10 1 1])) 0 False) \<le> 0
   \<and> wfs_maybeLoadEntry plain_remote_externals = Inr (Some plain_remote_entry)
   \<and> filer_FileSize plain_remote_externals plain_remote_entry = 99
   \<and> map_sum id attr_Size
        (fst (Attr plain_remote_externals zero_attr
               (example_file (Some (example_entry [chunk 0 10 1 1])) 0 False))) = Inr 20
   \<and> new_calls (example_file (Some (example_entry [chunk 0 10 1 1])) 0 False)
        (snd (Attr plain_remote_externals zero_attr
               (example_file (Some (example_entry [chunk 0 10 1 1])) 0 False))) = []"
  by code_simp

text \<open>
  Claim C7, amended: \<^verbatim>\<open>Attr\<close> reports the size recorded in the \<^verbatim>\<open>FileSize\<close> attribute of
  the cached entry when the open count is positive (not found when there is no entry),
  asking nothing of the remote side. When the open count is not positive and the entry
  is absent or hard-linked, it first asks the remote side and reports the error of the
  lookup, not found when the lookup finds no entry, or the size \<^verbatim>\<open>filer.FileSize\<close> computes
  from the entry found. When the open count is not positive and the cached entry has no
  hard link, it reports the size \<^verbatim>\<open>filer.FileSize\<close> computes from the cached entry, asks
  nothing of the remote side and leaves the node as it is.
\<close>

theorem Attr_size:
  "map_sum id attr_Size (fst (Attr ext attr file)) =
     (if 0 < isOpen file
      then (case entry file of
              None \<Rightarrow> Inl ENOENT
            | Some e \<Rightarrow> Inr (FileSize (Attributes e)))
      else if needs_reload file
      then (case wfs_maybeLoadEntry ext of
              Inl err \<Rightarrow> Inl err
            | Inr None \<Rightarrow> Inl ENOENT
            | Inr (Some e) \<Rightarrow> Inr (filer_FileSize ext e))
      else (case entry file of
              None \<Rightarrow> Inl ENOENT
            | Some e \<Rightarrow> Inr (filer_FileSize ext e)))
   \<and> take 1 (new_calls file (snd (Attr ext attr file))) =
       (if needs_reload file then [Call_wfs_maybeLoadEntry] else [])
   \<and> snd (Attr ext attr file) =
       (if needs_reload file then snd (maybeLoadEntry ext file) else file)"
proof (cases "0 < isOpen file")
  case True
  then have m: "maybeLoadEntry ext file = (Inr (entry file), file)"
    by (simp add: maybeLoadEntry_def getEntry_def)
  from True have n: "\<not> needs_reload file"
    by (simp add: needs_reload_def)
  from True m n show ?thesis
    by (cases "entry file") (simp_all add: Attr_def getEntry_def Let_def new_calls_def)
next
  case closed: False
  show ?thesis
  proof (cases "needs_reload file")
    case False
    with closed obtain e where e: "entry file = Some e" "HardLinkId e = []"
      by (auto simp: needs_reload_def split: option.splits)
    with closed have m: "maybeLoadEntry ext file = (Inr (Some e), file)"
      by (simp add: maybeLoadEntry_def getEntry_def)
    from closed False e m show ?thesis
      by (simp add: Attr_def getEntry_def Let_def new_calls_def)
  next
    case True
    let ?f1 = "file\<lparr>calls := calls file @ [Call_wfs_maybeLoadEntry]\<rparr>"
    have ask: "maybeLoadEntry ext file =
        (case wfs_maybeLoadEntry ext of
           Inl err \<Rightarrow> (Inl err, ?f1)
         | Inr None \<Rightarrow> (Inr None, ?f1)
         | Inr (Some e) \<Rightarrow> (Inr (Some e), setEntry ext e ?f1))"
      using True
      by (auto simp: maybeLoadEntry_def getEntry_def needs_reload_def Let_def
          split: option.splits)
    have c: "take 1 (new_calls file (setEntry ext e' ?f1)) = [Call_wfs_maybeLoadEntry]" for e'
      using setEntry_calls [of ext e' ?f1] by (auto simp: new_calls_def)
    have o: "isOpen (setEntry ext e' ?f1) = isOpen file" for e'
      by (simp add: setEntry_fields)
    have A: "Attr ext attr file =
        (case maybeLoadEntry ext file of
           (Inl err, f1) \<Rightarrow> (Inl err, f1)
         | (Inr None, f1) \<Rightarrow> (Inl ENOENT, f1)
         | (Inr (Some e), f1) \<Rightarrow>
             (Inr (attr\<lparr>attr_Valid := 1,
                        attr_Mode := FileMode (Attributes e),
                        attr_Size := (if isOpen f1 > 0 then FileSize (Attributes e)
                                      else filer_FileSize ext e),
                        attr_Crtime := Crtime (Attributes e),
                        attr_Mtime := AttrMtime (Attributes e),
                        attr_Gid := Gid (Attributes e),
                        attr_Uid := Uid (Attributes e),
                        attr_Blocks := (if isOpen f1 > 0 then FileSize (Attributes e)
                                        else filer_FileSize ext e) div blockSize + 1,
                        attr_BlockSize := ucast (ChunkSizeLimit ext),
                        attr_Nlink := (if 0 <s HardLinkCounter e then HardLinkCounter e
                                       else attr_Nlink attr)\<rparr>), f1))"
      using closed
      by (simp add: Attr_def Let_def split: prod.splits sum.splits option.splits)
    show ?thesis
      unfolding A ask using closed True c o
      by (simp add: new_calls_def split: sum.splits option.splits)
  qed
qed

theorem Attr_size_witness:
  "needs_reload (example_file (Some hardlink_entry) 0 False)
   \<and> map_sum id attr_Size
        (fst (Attr plain_remote_externals zero_attr (example_file (Some hardlink_entry) 0 False)))
       = Inr 99
   \<and> take 1 (new_calls (example_file (Some hardlink_entry) 0 False)
        (snd (Attr plain_remote_externals zero_attr (example_file (Some hardlink_entry) 0 False))))
       = [Call_wfs_maybeLoadEntry]"
proof -
  have n: "needs_reload (example_file (Some hardlink_entry) 0 False)"
    by code_simp
  have o: "\<not> 0 < isOpen (example_file (Some hardlink_entry) 0 False)"
    by (simp add: example_file_def)
  have r: "wfs_maybeLoadEntry plain_remote_externals = Inr (Some plain_remote_entry)"
    by (simp add: plain_remote_externals_def)
  have z: "filer_FileSize plain_remote_externals plain_remote_entry = 99"
    by code_simp
  note at_node =
    Attr_size [of plain_remote_externals zero_attr "example_file (Some hardlink_entry) 0 False"]
  have a: "map_sum id attr_Size
        (fst (Attr plain_remote_externals zero_attr (example_file (Some hardlink_entry) 0 False)))
       = Inr 99"
    using at_node [THEN conjunct1] n o r z by simp
  have b: "take 1 (new_calls (example_file (Some hardlink_entry) 0 False)
        (snd (Attr plain_remote_externals zero_attr (example_file (Some hardlink_entry) 0 False))))
       = [Call_wfs_maybeLoadEntry]"
    using at_node [THEN conjunct2, THEN conjunct1] n by simp
  from n a b show ?thesis by blast
qed

text \<open>
  Claim C8: when \<^verbatim>\<open>saveEntry\<close> flushes an entry and the remote \<^verbatim>\<open>UpdateEntry\<close> fails, the
  caller gets an I/O error, the local meta cache is not updated and the dirty flag stays
  as it is; when the remote call succeeds, the local meta cache is updated with the
  entry that was sent.
\<close>

theorem saveEntry_outcome:
  "fst (saveEntry ext (Some e) file) =
     (case client_UpdateEntry ext of Some err \<Rightarrow> Inl EIO | None \<Rightarrow> Inr ())
   \<and> new_calls file (snd (saveEntry ext (Some e) file)) =
       Call_client_UpdateEntry (mapPbIdFromLocalToFiler ext e)
         # (case client_UpdateEntry ext of
              Some err \<Rightarrow> []
            | None \<Rightarrow> [Call_metaCache_UpdateEntry (mapPbIdFromLocalToFiler ext e)])
   \<and> dirtyMetadata (snd (saveEntry ext (Some e) file)) = dirtyMetadata file"
  by (simp add: saveEntry_Some new_calls_def)

text \<open>
  Claim C9: no operation of the node clears the dirty flag, not even a flush that
  succeeds; once the flag is set, every later \<^verbatim>\<open>Setattr\<close> with no handle open sends the
  update to the remote side, also when the request asks for nothing.

  A closed node with a hard-linked entry is made dirty by a \<^verbatim>\<open>Setattr\<close> of the mode. A
  later \<^verbatim>\<open>Setattr\<close> that asks for nothing, met by a remote lookup that fails, returns the
  error of the lookup and sends nothing, with the flag set and no handle open.
\<close>

theorem Setattr_after_dirty_counterexample:
  "\<not> dirtyMetadata (example_file (Some hardlink_entry) 0 False)
   \<and> dirtyMetadata (run_ops mode_set (example_file (Some hardlink_entry) 0 False))
   \<and> isOpen (run_ops mode_set (example_file (Some hardlink_entry) 0 False)) \<le> 0
   \<and> fst (Setattr lookup_failing_externals no_request
            (run_ops mode_set (example_file (Some hardlink_entry) 0 False))) = Inl EIO
   \<and> \<not> flushed (run_ops mode_set (example_file (Some hardlink_entry) 0 False))
          (snd (Setattr lookup_failing_externals no_request
                 (run_ops mode_set (example_file (Some hardlink_entry) 0 False))))"
  by code_simp

text \<open>
  Claim C9, amended: no operation of the node clears the dirty flag, not even a flush
  that succeeds; once the flag is set, every later \<^verbatim>\<open>Setattr\<close> with no handle open whose
  load of the entry returns a present entry sends the update to the remote side, also
  when the request asks for nothing.

  After any sequence of operations of the node, under any surroundings, a flag that was
  set is set; and a \<^verbatim>\<open>Setattr\<close> that then finds no handle open and has its entry sends
  the update, whatever the request.
\<close>

theorem dirtyMetadata_never_cleared:
  assumes "dirtyMetadata file"
  shows "dirtyMetadata (run_ops steps file)
   \<and> (isOpen (run_ops steps file) \<le> 0 \<longrightarrow>
        maybeLoadEntry ext (run_ops steps file) = (Inr (Some e), file1) \<longrightarrow>
        flushed (run_ops steps file) (snd (Setattr ext req (run_ops steps file))))"
proof -
  have d: "dirtyMetadata (run_ops steps file)"
    using assms by (rule run_ops_dirty)
  have "flushed (run_ops steps file) (snd (Setattr ext req (run_ops steps file)))"
    if "isOpen (run_ops steps file) \<le> 0"
      and m: "maybeLoadEntry ext (run_ops steps file) = (Inr (Some e), file1)"
    using Setattr_loaded_flushed [OF m, of req] Setattr_dirty [OF d, of ext req] that(1)
    by simp
  with d show ?thesis by blast
qed

theorem dirtyMetadata_never_cleared_witness:
  "dirtyMetadata (example_file (Some (example_entry [])) 0 True)
   \<and> dirtyMetadata (run_ops flushed_then_idle (example_file (Some (example_entry [])) 0 True))
   \<and> flushed (run_ops flushed_then_idle (example_file (Some (example_entry [])) 0 True))
        (snd (Setattr example_externals no_request
               (run_ops flushed_then_idle (example_file (Some (example_entry [])) 0 True))))"
proof -
  let ?later = "run_ops flushed_then_idle (example_file (Some (example_entry [])) 0 True)"
  have h: "dirtyMetadata (example_file (Some (example_entry [])) 0 True)"
    by (simp add: example_file_def)
  have o: "isOpen ?later \<le> 0"
    by code_simp
  have m: "maybeLoadEntry example_externals ?later = (Inr (Some (example_entry [])), ?later)"
    by code_simp
  from dirtyMetadata_never_cleared [OF h, of flushed_then_idle example_externals
      "example_entry []" ?later no_request] h o m
  show ?thesis by blast
qed

text \<open>
  Claim C10: when the node has no entry, \<^verbatim>\<open>addChunks\<close> with a non-empty batch returns and
  changes nothing: the interval cache, the reader and the absent entry are as before,
  and the batch is recorded nowhere.
\<close>

theorem addChunks_nil_entry:
  assumes "entry file = None" and "chunks \<noteq> []"
  shows "addChunks ext spare chunks file = (Inr (), file)"
  using assms by (cases chunks) (simp_all add: addChunks_def getEntry_def Let_def)

theorem addChunks_nil_entry_witness:
  "entry (example_file None 0 False) = None \<and> batch_1_3 \<noteq> []
   \<and> addChunks example_externals 0 batch_1_3 (example_file None 0 False)
       = (Inr (), example_file None 0 False)"
proof -
  have h1: "entry (example_file None 0 False) = None" by (simp add: example_file_def)
  have h2: "batch_1_3 \<noteq> []" by (simp add: batch_1_3_def)
  from addChunks_nil_entry [OF h1 h2] h1 h2 show ?thesis by simp
qed

end
